theory Spec2Isabelle
  imports Main
begin

section \<open>JavaScript preliminaries\<close>

text \<open>
  The components are JavaScript functions. What they throw is a value of the model: a
  read of an identifier that no enclosing scope binds throws \<open>ReferenceError\<close>, a
  method call on \<open>undefined\<close> throws \<open>TypeError\<close>, and a named import that the
  imported module does not export is a \<open>SyntaxError\<close> of the importing module. A
  computation that may throw returns \<open>js_error + 'a\<close>, with \<open>Inl\<close> for the exception.
\<close>

datatype js_error = ReferenceError string | TypeError string | SyntaxError string

definition bind_e :: "js_error + 'a \<Rightarrow> ('a \<Rightarrow> js_error + 'b) \<Rightarrow> js_error + 'b" where
  "bind_e m f = (case m of Inl e \<Rightarrow> Inl e | Inr v \<Rightarrow> f v)"

text \<open>\<open>Array.prototype.map\<close> with a callback that may throw: the first exception ends the call.\<close>

fun map_e :: "('a \<Rightarrow> js_error + 'b) \<Rightarrow> 'a list \<Rightarrow> js_error + 'b list" where
  "map_e f [] = Inr []"
| "map_e f (x # xs) = bind_e (f x) (\<lambda>y. bind_e (map_e f xs) (\<lambda>ys. Inr (y # ys)))"

text \<open>
  A scope is the list of identifiers bound where an expression is evaluated (imports,
  module constants, the local declarations of the function). \<open>ident sc x v\<close> is the read
  of identifier \<open>x\<close> whose binding, if there is one, holds \<open>v\<close>.
\<close>

type_synonym scope = "string list"

definition ident :: "scope \<Rightarrow> string \<Rightarrow> 'a \<Rightarrow> js_error + 'a" where
  "ident sc x v = (if x \<in> set sc then Inr v else Inl (ReferenceError x))"

text \<open>
  A module is given by the names it exports. \<open>import_named exports x v\<close> is the import
  \<open>import { x } from ...\<close> from a module that exports the names \<open>exports\<close>, where \<open>v\<close>
  is what the module declares under the name \<open>x\<close>.
\<close>

definition import_named :: "string list \<Rightarrow> string \<Rightarrow> 'a \<Rightarrow> js_error + 'a" where
  "import_named exports x v = (if x \<in> set exports then Inr v else Inl (SyntaxError x))"

text \<open>
  A string with characters outside ASCII is kept as the list of its UTF-16 code units,
  which is how a JavaScript string stores it.
\<close>

type_synonym utf16 = "nat list"

text \<open>
  The decimal text of an integer. For an integer below \<open>10^21\<close> in absolute value this
  is what a template literal or a JSX text child makes of the number.
\<close>

definition digit_char :: "nat \<Rightarrow> char" where
  "digit_char d = char_of (48 + d)"

fun digits_of_nat :: "nat \<Rightarrow> string" where
  "digits_of_nat n =
     (if n < 10 then [digit_char n] else digits_of_nat (n div 10) @ [digit_char (n mod 10)])"

declare digits_of_nat.simps [simp del]

definition Number_toString :: "int \<Rightarrow> string" where
  "Number_toString n =
     (if n < 0 then CHR ''-'' # digits_of_nat (nat (- n)) else digits_of_nat (nat n))"

text \<open>What a handler does to the browser besides updating component state.\<close>

datatype effect = PreventDefault | StopPropagation | Alert string | Navigate string

section \<open>The reader view: data\<close>

record citation =
  c_id :: string
  c_title :: string
  c_authors :: string
  c_abstract :: string

record sentence =
  s_id :: int
  en :: string
  cn :: utf16
  s_citation :: "citation option"

definition ref_1 :: citation where
  "ref_1 = \<lparr>c_id = ''ref-1'',
     c_title = ''Neural Machine Translation by Jointly Learning to Align and Translate'',
     c_authors = ''Bahdanau et al., 2014'',
     c_abstract = ''This paper introduces the attention mechanism in RNNs, allowing the model to search for parts of a source sentence that are relevant to predicting a target word.''\<rparr>"

definition sentence_1 :: sentence where
  "sentence_1 = \<lparr>s_id = 1,
     en = ''The dominant sequence transduction models are based on complex recurrent or convolutional neural networks that include an encoder and a decoder.'',
     cn = [20027, 27969, 30340, 24207, 21015, 36716, 23548, 27169, 22411, 22522, 20110, 22797,
       26434, 30340, 24490, 29615, 31070, 32463, 32593, 32476, 25110, 21367, 31215, 31070, 32463,
       32593, 32476, 65292, 36825, 20123, 32593, 32476, 21253, 21547, 19968, 20010, 32534, 30721,
       22120, 21644, 19968, 20010, 35299, 30721, 22120, 12290],
     s_citation = None\<rparr>"

definition sentence_2 :: sentence where
  "sentence_2 = \<lparr>s_id = 2,
     en = ''The best performing models also connect the encoder and decoder through an attention mechanism.'',
     cn = [34920, 29616, 26368, 22909, 30340, 27169, 22411, 36824, 36890, 36807, 27880, 24847,
       21147, 26426, 21046, 36830, 25509, 32534, 30721, 22120, 21644, 35299, 30721, 22120, 12290],
     s_citation = None\<rparr>"

definition sentence_3 :: sentence where
  "sentence_3 = \<lparr>s_id = 3,
     en = ''We propose a new simple network architecture, the Transformer, based solely on attention mechanisms, dispensing with recurrence and convolutions entirely [1].'',
     cn = [25105, 20204, 25552, 20986, 20102, 19968, 31181, 26032, 30340, 31616, 21333, 32593,
       32476, 26550, 26500, 8212, 8212, 84, 114, 97, 110, 115, 102, 111, 114, 109, 101, 114, 65292,
       23427, 23436, 20840, 22522, 20110, 27880, 24847, 21147, 26426, 21046, 65292, 24443, 24213,
       25682, 24323, 20102, 24490, 29615, 21644, 21367, 31215, 32, 91, 49, 93, 12290],
     s_citation = Some ref_1\<rparr>"

definition MOCK_CONTENT :: "sentence list" where
  "MOCK_CONTENT = [sentence_1, sentence_2, sentence_3]"

section \<open>The reader view: state and scope\<close>

text \<open>
  The identifiers bound where the body of \<open>Reader\<close> is evaluated: the imports and the
  constant of its module, and its own local declarations (\<open>navigate\<close>, \<open>id\<close> and the two
  \<open>useState\<close> pairs). Parameters of the callbacks (\<open>sentence\<close>, \<open>item\<close>, \<open>e\<close>, \<open>q\<close>) are
  bound by the callbacks themselves and are not looked up here.
\<close>

definition Reader_scope :: scope where
  "Reader_scope =
     [''React'', ''useState'', ''useNavigate'', ''useParams'',
      ''ArrowLeft'', ''MessageSquare'', ''Languages'', ''Share2'', ''Download'',
      ''ChevronRight'', ''Play'', ''CheckCircle2'', ''X'',
      ''CitationCard'', ''CodeBlock'', ''MOCK_CONTENT'', ''Reader'',
      ''navigate'', ''id'', ''activeTab'', ''setActiveTab'',
      ''activeCitation'', ''setActiveCitation'']"

text \<open>
  Modelled from the spec: the declarations of \<open>hoveredSentence\<close>, \<open>setHoveredSentence\<close>,
  \<open>showGuide\<close>, \<open>setShowGuide\<close> and \<open>handleCitationClick\<close> are missing from \<open>Reader\<close>,
  which uses all five. The spec reads them as local state of the view (the hovered
  identifier or none, the visibility of the onboarding banner) and as the setter of the
  active citation. \<open>Reader_scope_completed\<close> is the scope with these five names bound.
\<close>

definition Reader_undeclared :: scope where
  "Reader_undeclared =
     [''hoveredSentence'', ''setHoveredSentence'', ''showGuide'', ''setShowGuide'',
      ''handleCitationClick'']"

definition Reader_scope_completed :: scope where
  "Reader_scope_completed = Reader_scope @ Reader_undeclared"

text \<open>
  The state of one \<open>Reader\<close> instance. \<open>activeTab\<close> and \<open>activeCitation\<close> are the two
  \<open>useState\<close> slots of the source; \<open>hoveredSentence\<close> and \<open>showGuide\<close> are the two slots
  whose declarations are missing.
\<close>

record reader_state =
  activeTab :: string
  activeCitation :: "citation option"
  hoveredSentence :: "int option"
  showGuide :: bool

text \<open>
  The state of a freshly mounted view: \<open>useState('translation')\<close> and \<open>useState(null)\<close>;
  the initial values of the two undeclared slots are parameters.
\<close>

definition Reader_initial :: "int option \<Rightarrow> bool \<Rightarrow> reader_state" where
  "Reader_initial h g =
     \<lparr>activeTab = ''translation'', activeCitation = None, hoveredSentence = h, showGuide = g\<rparr>"

definition setActiveTab :: "scope \<Rightarrow> string \<Rightarrow> reader_state \<Rightarrow> js_error + reader_state" where
  "setActiveTab sc v st = ident sc ''setActiveTab'' (st\<lparr>activeTab := v\<rparr>)"

definition setActiveCitation ::
  "scope \<Rightarrow> citation option \<Rightarrow> reader_state \<Rightarrow> js_error + reader_state" where
  "setActiveCitation sc v st = ident sc ''setActiveCitation'' (st\<lparr>activeCitation := v\<rparr>)"

text \<open>
  Modelled from the spec: \<open>setHoveredSentence\<close> (missing declaration) is the setter of the
  hovered-sentence slot: \<open>setHover(identifier | none)\<close> replaces the current hovered
  identifier.
\<close>

definition setHoveredSentence ::
  "scope \<Rightarrow> int option \<Rightarrow> reader_state \<Rightarrow> js_error + reader_state" where
  "setHoveredSentence sc v st = ident sc ''setHoveredSentence'' (st\<lparr>hoveredSentence := v\<rparr>)"

text \<open>
  Modelled from the spec: \<open>setShowGuide\<close> (missing declaration) is the setter of the
  visibility of the onboarding banner.
\<close>

definition setShowGuide :: "scope \<Rightarrow> bool \<Rightarrow> reader_state \<Rightarrow> js_error + reader_state" where
  "setShowGuide sc v st = ident sc ''setShowGuide'' (st\<lparr>showGuide := v\<rparr>)"

text \<open>
  Modelled from the spec: \<open>handleCitationClick\<close> (missing function) is \<open>openCitation(ref)\<close>,
  which replaces any currently open citation with \<open>ref\<close>.
\<close>

definition handleCitationClick ::
  "scope \<Rightarrow> citation option \<Rightarrow> reader_state \<Rightarrow> js_error + reader_state" where
  "handleCitationClick sc ref st = ident sc ''handleCitationClick'' (st\<lparr>activeCitation := ref\<rparr>)"

section \<open>The reader view: rendering\<close>

text \<open>
  The rendered tree, reduced to the parts that depend on the state, the route parameter
  or the document: the header text, the classes of the two tab buttons, the banner, the
  citation cards, the sentence spans of the reading pane and the side panel. A class
  field holds the interpolated part of the \<open>className\<close> template.
\<close>

record card =
  card_title :: string
  card_authors :: string
  card_abstract :: string

record main_span =
  ms_key :: int
  ms_className :: string
  ms_text :: string
  ms_marker :: bool

record side_item =
  si_key :: int
  si_className :: string
  si_label :: string
  si_en :: string
  si_cn :: utf16

datatype side_panel = TranslationPanel "side_item list" | ChatPanel | NoPanel

record reader_view =
  rv_header :: string
  rv_tab_translation :: string
  rv_tab_chat :: string
  rv_guide :: bool
  rv_cards :: "card list"
  rv_main :: "main_span list"
  rv_side :: side_panel

definition CitationCard :: "citation \<Rightarrow> card" where
  "CitationCard data =
     \<lparr>card_title = c_title data, card_authors = c_authors data, card_abstract = c_abstract data\<rparr>"

definition Reader_header :: "string option \<Rightarrow> string" where
  "Reader_header i =
     ''Attention Is All You Need (Paper ID: '' @ (case i of None \<Rightarrow> [] | Some s \<Rightarrow> s) @ '')''"

definition Reader_main_span :: "scope \<Rightarrow> reader_state \<Rightarrow> sentence \<Rightarrow> js_error + main_span" where
  "Reader_main_span sc st sentence =
     bind_e (ident sc ''hoveredSentence'' (hoveredSentence st)) (\<lambda>h.
       Inr \<lparr>ms_key = s_id sentence,
            ms_className = (if h = Some (s_id sentence) then ''bg-blue-100 text-blue-900''
                            else ''hover:bg-slate-50''),
            ms_text = en sentence,
            ms_marker = (s_citation sentence \<noteq> None)\<rparr>)"

definition Reader_side_item :: "scope \<Rightarrow> reader_state \<Rightarrow> sentence \<Rightarrow> js_error + side_item" where
  "Reader_side_item sc st item =
     bind_e (ident sc ''hoveredSentence'' (hoveredSentence st)) (\<lambda>h.
       Inr \<lparr>si_key = s_id item,
            si_className = (if h = Some (s_id item) then ''bg-blue-50 border-l-4 border-blue-500''
                            else ''hover:bg-slate-50 border-l-4 border-transparent''),
            si_label = ''Sentence #'' @ Number_toString (s_id item),
            si_en = en item,
            si_cn = cn item\<rparr>)"

text \<open>
  \<open>Reader\<close>, in the order JavaScript evaluates the JSX: the header (\<open>id\<close>, \<open>activeTab\<close>),
  the banner (\<open>showGuide\<close>), the citation card (\<open>activeCitation\<close>), the spans of the
  reading pane, then the side panel. \<open>params\<close> is what \<open>useParams()\<close> returns.
\<close>

definition Reader_render ::
  "scope \<Rightarrow> (string \<times> string) list \<Rightarrow> reader_state \<Rightarrow> js_error + reader_view" where
  "Reader_render sc params st =
     bind_e (ident sc ''id'' (map_of params ''id'')) (\<lambda>i.
     bind_e (ident sc ''activeTab'' (activeTab st)) (\<lambda>tab.
     bind_e (ident sc ''showGuide'' (showGuide st)) (\<lambda>guide.
     bind_e (ident sc ''activeCitation'' (activeCitation st)) (\<lambda>cit.
     bind_e (ident sc ''MOCK_CONTENT'' MOCK_CONTENT) (\<lambda>content.
     bind_e (map_e (Reader_main_span sc st) content) (\<lambda>spans.
     bind_e (if tab = ''translation''
             then bind_e (map_e (Reader_side_item sc st) content) (\<lambda>items.
                    Inr (TranslationPanel items))
             else if tab = ''chat'' then Inr ChatPanel else Inr NoPanel) (\<lambda>side.
       Inr \<lparr>rv_header = Reader_header i,
            rv_tab_translation = (if tab = ''translation'' then ''bg-white shadow text-blue-600''
                                  else ''text-slate-500 hover:text-slate-700''),
            rv_tab_chat = (if tab = ''chat'' then ''bg-white shadow text-purple-600''
                           else ''text-slate-500 hover:text-slate-700''),
            rv_guide = guide,
            rv_cards = (case cit of None \<Rightarrow> [] | Some c \<Rightarrow> [CitationCard c]),
            rv_main = spans,
            rv_side = side\<rparr>)))))))"

text \<open>The identifiers of the units that carry the highlight style, in each pane.\<close>

definition main_highlighted :: "reader_view \<Rightarrow> int list" where
  "main_highlighted v =
     map ms_key (filter (\<lambda>u. ms_className u = ''bg-blue-100 text-blue-900'') (rv_main v))"

definition side_highlighted :: "reader_view \<Rightarrow> int list" where
  "side_highlighted v =
     (case rv_side v of
        TranslationPanel items \<Rightarrow>
          map si_key (filter (\<lambda>i. si_className i = ''bg-blue-50 border-l-4 border-blue-500'') items)
      | ChatPanel \<Rightarrow> []
      | NoPanel \<Rightarrow> [])"

section \<open>The reader view: event handlers\<close>

text \<open>
  The elements of the view that bind a handler, and the kinds of event they bind it for.
  A handler returns the effects it had on the browser and the next state.
\<close>

datatype target =
    BackButton | TabTranslation | TabChat | GuideClose | GuideGotIt | CardClose
  | MainSentence sentence | Marker sentence | SideEntry sentence

datatype event_kind = Click | MouseEnter | MouseLeave

type_synonym handler = "reader_state \<Rightarrow> js_error + (effect list \<times> reader_state)"

definition Reader_back_onClick :: "scope \<Rightarrow> handler" where
  "Reader_back_onClick sc st =
     bind_e (ident sc ''navigate'' ()) (\<lambda>_. Inr ([Navigate ''/dashboard''], st))"

definition Reader_tab_translation_onClick :: "scope \<Rightarrow> handler" where
  "Reader_tab_translation_onClick sc st =
     bind_e (setActiveTab sc ''translation'' st) (\<lambda>st'. Inr ([], st'))"

definition Reader_tab_chat_onClick :: "scope \<Rightarrow> handler" where
  "Reader_tab_chat_onClick sc st = bind_e (setActiveTab sc ''chat'' st) (\<lambda>st'. Inr ([], st'))"

definition Reader_guide_onClick :: "scope \<Rightarrow> handler" where
  "Reader_guide_onClick sc st = bind_e (setShowGuide sc False st) (\<lambda>st'. Inr ([], st'))"

definition Reader_card_onClose :: "scope \<Rightarrow> handler" where
  "Reader_card_onClose sc st = bind_e (setActiveCitation sc None st) (\<lambda>st'. Inr ([], st'))"

definition Reader_main_onMouseEnter :: "scope \<Rightarrow> sentence \<Rightarrow> handler" where
  "Reader_main_onMouseEnter sc sentence st =
     bind_e (setHoveredSentence sc (Some (s_id sentence)) st) (\<lambda>st'. Inr ([], st'))"

definition Reader_main_onMouseLeave :: "scope \<Rightarrow> sentence \<Rightarrow> handler" where
  "Reader_main_onMouseLeave sc sentence st =
     bind_e (setHoveredSentence sc None st) (\<lambda>st'. Inr ([], st'))"

text \<open>\<open>e.stopPropagation(); handleCitationClick(sentence.citation);\<close>\<close>

definition Reader_marker_onClick :: "scope \<Rightarrow> sentence \<Rightarrow> handler" where
  "Reader_marker_onClick sc sentence st =
     bind_e (handleCitationClick sc (s_citation sentence) st) (\<lambda>st'.
       Inr ([StopPropagation], st'))"

definition Reader_side_onMouseEnter :: "scope \<Rightarrow> sentence \<Rightarrow> handler" where
  "Reader_side_onMouseEnter sc item st =
     bind_e (setHoveredSentence sc (Some (s_id item)) st) (\<lambda>st'. Inr ([], st'))"

text \<open>
  The handler an element binds for a kind of event, if it binds one. The spans of the
  reading pane bind mouse-enter and mouse-leave; the entries of the side panel bind
  mouse-enter only.
\<close>

fun handler_of :: "scope \<Rightarrow> event_kind \<Rightarrow> target \<Rightarrow> handler option" where
  "handler_of sc Click BackButton = Some (Reader_back_onClick sc)"
| "handler_of sc Click TabTranslation = Some (Reader_tab_translation_onClick sc)"
| "handler_of sc Click TabChat = Some (Reader_tab_chat_onClick sc)"
| "handler_of sc Click GuideClose = Some (Reader_guide_onClick sc)"
| "handler_of sc Click GuideGotIt = Some (Reader_guide_onClick sc)"
| "handler_of sc Click CardClose = Some (Reader_card_onClose sc)"
| "handler_of sc MouseEnter (MainSentence s) = Some (Reader_main_onMouseEnter sc s)"
| "handler_of sc MouseLeave (MainSentence s) = Some (Reader_main_onMouseLeave sc s)"
| "handler_of sc Click (Marker s) = Some (Reader_marker_onClick sc s)"
| "handler_of sc MouseEnter (SideEntry s) = Some (Reader_side_onMouseEnter sc s)"
| "handler_of sc _ _ = None"

text \<open>
  A click bubbles from its target through the enclosing elements until a handler stops
  the propagation; mouse-enter and mouse-leave do not bubble. The only element with a
  handler that encloses another one with a handler is the sentence span around its
  citation marker.
\<close>

fun bubble :: "handler option list \<Rightarrow> handler" where
  "bubble [] st = Inr ([], st)"
| "bubble (None # hs) st = bubble hs st"
| "bubble (Some h # hs) st =
     bind_e (h st) (\<lambda>(effs, st').
       if StopPropagation \<in> set effs then Inr (effs, st')
       else bind_e (bubble hs st') (\<lambda>(effs', st''). Inr (effs @ effs', st'')))"

fun ancestors :: "target \<Rightarrow> target list" where
  "ancestors (Marker s) = [MainSentence s]"
| "ancestors _ = []"

definition dispatch :: "scope \<Rightarrow> event_kind \<Rightarrow> target \<Rightarrow> handler" where
  "dispatch sc k t st =
     bubble (map (handler_of sc k) (if k = Click then t # ancestors t else [t])) st"

text \<open>
  \<open>navigate\<close> replaces the location: the router unmounts the view and its state is gone.
  A session of the view is therefore either a mounted view with its state, or the path
  the view was left for. \<open>navigation\<close> is the path of the first \<open>Navigate\<close> among the
  effects of an event, if there is one.
\<close>

datatype reader_session = Mounted reader_state | Unmounted string

fun navigation :: "effect list \<Rightarrow> string option" where
  "navigation [] = None"
| "navigation (Navigate path # effs) = Some path"
| "navigation (eff # effs) = navigation effs"

text \<open>
  A sequence of events on one mounted view. An exception ends the run, and so does an
  event that navigates away: the events after it have no view to be delivered to.
\<close>

fun run :: "scope \<Rightarrow> (event_kind \<times> target) list \<Rightarrow> reader_state \<Rightarrow> js_error + reader_session" where
  "run sc [] st = Inr (Mounted st)"
| "run sc (e # es) st =
     bind_e (dispatch sc (fst e) (snd e) st) (\<lambda>(effs, st').
       case navigation effs of
         Some path \<Rightarrow> Inr (Unmounted path)
       | None \<Rightarrow> run sc es st')"

text \<open>
  Whether an element is in the tree rendered from a state: a marker needs a citation on
  its sentence, the entries of the side panel need the translation tab, the close
  button of the card needs an active citation, the buttons of the banner need the banner.
\<close>

fun rendered :: "reader_state \<Rightarrow> target \<Rightarrow> bool" where
  "rendered st (MainSentence s) = (s \<in> set MOCK_CONTENT)"
| "rendered st (Marker s) = (s \<in> set MOCK_CONTENT \<and> s_citation s \<noteq> None)"
| "rendered st (SideEntry s) = (s \<in> set MOCK_CONTENT \<and> activeTab st = ''translation'')"
| "rendered st CardClose = (activeCitation st \<noteq> None)"
| "rendered st GuideClose = showGuide st"
| "rendered st GuideGotIt = showGuide st"
| "rendered st BackButton = True"
| "rendered st TabTranslation = True"
| "rendered st TabChat = True"

text \<open>
  The hover events are the three bindings that call \<open>setHoveredSentence\<close>; the argument
  of a hover event is the identifier of its sentence on mouse-enter and none on
  mouse-leave.
\<close>

fun is_hover_event :: "event_kind \<times> target \<Rightarrow> bool" where
  "is_hover_event (MouseEnter, MainSentence s) = True"
| "is_hover_event (MouseLeave, MainSentence s) = True"
| "is_hover_event (MouseEnter, SideEntry s) = True"
| "is_hover_event _ = False"

fun hover_argument :: "event_kind \<times> target \<Rightarrow> int option" where
  "hover_argument (MouseEnter, MainSentence s) = Some (s_id s)"
| "hover_argument (MouseEnter, SideEntry s) = Some (s_id s)"
| "hover_argument _ = None"

fun in_document :: "event_kind \<times> target \<Rightarrow> bool" where
  "in_document (k, MainSentence s) = (s \<in> set MOCK_CONTENT)"
| "in_document (k, Marker s) = (s \<in> set MOCK_CONTENT)"
| "in_document (k, SideEntry s) = (s \<in> set MOCK_CONTENT)"
| "in_document _ = True"

text \<open>
  The highlighted identifiers a hovered value gives in a pane that shows the whole
  document: the hovered identifier when a sentence of the document carries it.
\<close>

definition shown :: "int option \<Rightarrow> int list" where
  "shown h = (case h of None \<Rightarrow> [] | Some k \<Rightarrow> if k \<in> s_id ` set MOCK_CONTENT then [k] else [])"

section \<open>The listing view\<close>

record paper =
  p_id :: int
  p_title :: string
  p_date :: string
  p_status :: string
  p_tags :: "string list"

definition recentPapers :: "paper list" where
  "recentPapers =
     [\<lparr>p_id = 1, p_title = ''Deep Residual Learning for Image Recognition'',
       p_date = ''2 hours ago'', p_status = ''ready'', p_tags = [''CV'', ''ResNet'']\<rparr>,
      \<lparr>p_id = 2, p_title = ''Attention Is All You Need'',
       p_date = ''Yesterday'', p_status = ''ready'', p_tags = [''NLP'', ''Transformer'']\<rparr>,
      \<lparr>p_id = 3, p_title = ''A Survey on Large Language Models'',
       p_date = ''3 days ago'', p_status = ''processing'', p_tags = [''LLM'', ''Survey'']\<rparr>]"

text \<open>
  The props \<open>PaperItem\<close> destructures. A prop that the caller leaves out is \<open>undefined\<close>;
  only \<open>tags\<close> is used in a way that can throw (\<open>tags.map\<close>), so only \<open>tags\<close> is optional
  here. \<open>onClick\<close> takes no argument and touches no state: it is given by its effects.
\<close>

record paper_props =
  pp_id :: int
  pp_title :: string
  pp_date :: string
  pp_status :: string
  pp_tags :: "string list option"
  pp_onClick :: "effect list"

text \<open>
  The two status badges: \<open>ReadyBadge\<close> is the emerald span with the \<open>Sparkles\<close> icon,
  \<open>ProcessingBadge\<close> the amber, pulsing span with the \<open>Bot\<close> icon.
\<close>

datatype badge = ReadyBadge | ProcessingBadge

record paper_row =
  row_title :: string
  row_date :: string
  row_tags :: "string list"
  row_badges :: "badge list"
  row_onClick :: "effect list"

definition PaperItem :: "paper_props \<Rightarrow> js_error + paper_row" where
  "PaperItem props =
     (case pp_tags props of
        None \<Rightarrow> Inl (TypeError ''tags.map'')
      | Some tags \<Rightarrow>
          Inr \<lparr>row_title = pp_title props,
               row_date = pp_date props,
               row_tags = map (\<lambda>tag. tag) tags,
               row_badges = (if pp_status props = ''ready'' then [ReadyBadge] else []) @
                            (if pp_status props = ''processing'' then [ProcessingBadge] else []),
               row_onClick = pp_onClick props\<rparr>)"

text \<open>\<open>navigate(`/read/${id}`)\<close>\<close>

definition handlePaperClick :: "int \<Rightarrow> effect list" where
  "handlePaperClick i = [Navigate (''/read/'' @ Number_toString i)]"

text \<open>\<open><PaperItem key={paper.id} {...paper} onClick={() => handlePaperClick(paper.id)} />\<close>\<close>

definition paper_item_props :: "paper \<Rightarrow> paper_props" where
  "paper_item_props paper =
     \<lparr>pp_id = p_id paper, pp_title = p_title paper, pp_date = p_date paper,
      pp_status = p_status paper, pp_tags = Some (p_tags paper),
      pp_onClick = handlePaperClick (p_id paper)\<rparr>"

record dashboard_state =
  isDragging :: bool

text \<open>A drag event, with the names of the files it carries.\<close>

record drag_event =
  de_files :: "string list"

definition Dashboard_onDragOver ::
  "drag_event \<Rightarrow> dashboard_state \<Rightarrow> effect list \<times> dashboard_state" where
  "Dashboard_onDragOver e st = ([PreventDefault], st\<lparr>isDragging := True\<rparr>)"

definition Dashboard_onDragLeave ::
  "drag_event \<Rightarrow> dashboard_state \<Rightarrow> effect list \<times> dashboard_state" where
  "Dashboard_onDragLeave e st = ([], st\<lparr>isDragging := False\<rparr>)"

definition Dashboard_onDrop ::
  "drag_event \<Rightarrow> dashboard_state \<Rightarrow> effect list \<times> dashboard_state" where
  "Dashboard_onDrop e st =
     ([PreventDefault, Alert ''Backend integration needed for file upload''],
      st\<lparr>isDragging := False\<rparr>)"

text \<open>
  \<open>FeatureCard\<close>: the two interpolated class fragments, the icon, the title and the text.
\<close>

record feature_props =
  fp_icon :: string
  fp_title :: string
  fp_desc :: string
  fp_color :: string

record feature_card =
  fc_corner :: string
  fc_badge :: string
  fc_icon :: string
  fc_title :: string
  fc_desc :: string

definition FeatureCard :: "feature_props \<Rightarrow> feature_card" where
  "FeatureCard props =
     \<lparr>fc_corner = ''bg-'' @ fp_color props @ ''-50'',
      fc_badge = ''bg-'' @ fp_color props @ ''-100 text-'' @ fp_color props @ ''-600'',
      fc_icon = fp_icon props,
      fc_title = fp_title props,
      fc_desc = fp_desc props\<rparr>"

text \<open>
  What the two component modules that \<open>Dashboard\<close> imports by name export.
  \<open>PaperItem.jsx\<close> has \<open>export const PaperItem\<close>; \<open>FeatureCard.jsx\<close> declares
  \<open>const FeatureCard\<close> and exports nothing.
\<close>

definition PaperItem_exports :: "string list" where
  "PaperItem_exports = [''PaperItem'']"

definition FeatureCard_exports :: "string list" where
  "FeatureCard_exports = []"

text \<open>The props of the three feature cards of the listing view.\<close>

definition Dashboard_features :: "feature_props list" where
  "Dashboard_features =
     [\<lparr>fp_icon = ''GitBranch'', fp_title = ''Innovation Mining'',
       fp_desc = ''Upload multiple papers. I'' @ [CHR 0x27] @ ''ll construct a knowledge graph and pinpoint exactly how your idea differs from SOTA.'',
       fp_color = ''blue''\<rparr>,
      \<lparr>fp_icon = ''Code'', fp_title = ''Algo to Code'',
       fp_desc = ''Highlight pseudocode in any paper, and I will generate executable Python/PyTorch implementations instantly.'',
       fp_color = ''emerald''\<rparr>,
      \<lparr>fp_icon = ''Clock'', fp_title = ''Time Travel Search'',
       fp_desc = ''Use vector retrieval to find papers from specific eras that laid the foundation for your current topic.'',
       fp_color = ''purple''\<rparr>]"

record dashboard_view =
  dv_features :: "feature_card list"
  dv_dropzone :: string
  dv_rows :: "paper_row list"

text \<open>
  \<open>Dashboard\<close>, given the names the module of \<open>FeatureCard\<close> exports: the two named
  imports are resolved first, then the feature cards, the drop zone and the rows follow
  in the order of the JSX. With \<open>FeatureCard_exports\<close>, the exports of the source, the
  import of \<open>FeatureCard\<close> fails and the listing view does not render.
\<close>

definition Dashboard_render :: "string list \<Rightarrow> dashboard_state \<Rightarrow> js_error + dashboard_view" where
  "Dashboard_render feature_card_exports st =
     bind_e (import_named feature_card_exports ''FeatureCard'' FeatureCard) (\<lambda>feature_card.
     bind_e (import_named PaperItem_exports ''PaperItem'' PaperItem) (\<lambda>paper_item.
     bind_e (map_e (\<lambda>paper. paper_item (paper_item_props paper)) recentPapers) (\<lambda>rows.
       Inr \<lparr>dv_features = map feature_card Dashboard_features,
            dv_dropzone = (if isDragging st then ''border-blue-500 bg-blue-50/50 scale-[1.01]''
                           else ''border-slate-300 bg-white hover:border-slate-400''),
            dv_rows = rows\<rparr>)))"

section \<open>Routes\<close>



fun split_on :: "char \<Rightarrow> string \<Rightarrow> string list" where
  "split_on c [] = [[]]"
| "split_on c (x # xs) =
     (if x = c then [] # split_on c xs
      else (case split_on c xs of [] \<Rightarrow> [[x]] | w # ws \<Rightarrow> (x # w) # ws))"

definition strip_trailing :: "char \<Rightarrow> string \<Rightarrow> string" where
  "strip_trailing c s = rev (dropWhile (\<lambda>x. x = c) (rev s))"

text \<open>Case-insensitive comparison of ASCII text: both sides in lower case.\<close>

definition to_lower :: "char \<Rightarrow> char" where
  "to_lower c =
     (if 65 \<le> (of_char c :: nat) \<and> (of_char c :: nat) \<le> 90
      then char_of ((of_char c :: nat) + 32) else c)"

text \<open>
  \<open>decodeURIComponent\<close> on text kept as UTF-8 bytes. \<open>unescape\<close> resolves each \<open>%XX\<close> to
  its byte and marks it as escaped; a \<open>%\<close> without two hexadecimal digits is an error.
  \<open>utf8_ok\<close> checks that every escaped byte from \<open>0x80\<close> on starts or continues a
  well-formed UTF-8 sequence made of escaped bytes only; if not, decoding throws
  \<open>URIError\<close>, which is \<open>None\<close> here.
\<close>

definition hex_value :: "char \<Rightarrow> nat option" where
  "hex_value c =
     (let n = (of_char c :: nat) in
      if 48 \<le> n \<and> n \<le> 57 then Some (n - 48)
      else if 65 \<le> n \<and> n \<le> 70 then Some (n - 55)
      else if 97 \<le> n \<and> n \<le> 102 then Some (n - 87)
      else None)"

fun unescape :: "string \<Rightarrow> (bool \<times> nat) list option" where
  "unescape [] = Some []"
| "unescape (c # cs) =
     (if c = CHR ''%'' then
        (case cs of
           h1 # h2 # rest \<Rightarrow>
             (case hex_value h1 of
                None \<Rightarrow> None
              | Some a \<Rightarrow>
                  (case hex_value h2 of
                     None \<Rightarrow> None
                   | Some b \<Rightarrow>
                       (case unescape rest of
                          None \<Rightarrow> None
                        | Some bs \<Rightarrow> Some ((True, 16 * a + b) # bs))))
         | _ \<Rightarrow> None)
      else (case unescape cs of
              None \<Rightarrow> None
            | Some bs \<Rightarrow> Some ((False, of_char c) # bs)))"

definition continuation :: "bool \<times> nat \<Rightarrow> nat \<Rightarrow> nat \<Rightarrow> bool" where
  "continuation x lo hi = (fst x \<and> lo \<le> snd x \<and> snd x \<le> hi)"

fun utf8_ok :: "(bool \<times> nat) list \<Rightarrow> bool" where
  "utf8_ok [] = True"
| "utf8_ok (x # xs) =
     (if \<not> fst x \<or> snd x < 128 then utf8_ok xs
      else if 194 \<le> snd x \<and> snd x \<le> 223 then
        (case xs of
           x1 # r \<Rightarrow> continuation x1 128 191 \<and> utf8_ok r
         | _ \<Rightarrow> False)
      else if 224 \<le> snd x \<and> snd x \<le> 239 then
        (case xs of
           x1 # x2 # r \<Rightarrow>
             continuation x1 (if snd x = 224 then 160 else 128) (if snd x = 237 then 159 else 191)
             \<and> continuation x2 128 191 \<and> utf8_ok r
         | _ \<Rightarrow> False)
      else if 240 \<le> snd x \<and> snd x \<le> 244 then
        (case xs of
           x1 # x2 # x3 # r \<Rightarrow>
             continuation x1 (if snd x = 240 then 144 else 128) (if snd x = 244 then 143 else 191)
             \<and> continuation x2 128 191 \<and> continuation x3 128 191 \<and> utf8_ok r
         | _ \<Rightarrow> False)
      else False)"

definition decodeURIComponent :: "string \<Rightarrow> string option" where
  "decodeURIComponent s =
     (case unescape s of
        None \<Rightarrow> None
      | Some bs \<Rightarrow> if utf8_ok bs then Some (map (\<lambda>x. char_of (snd x)) bs) else None)"

definition safelyDecodeURIComponent :: "string \<Rightarrow> string" where
  "safelyDecodeURIComponent s = (case decodeURIComponent s of None \<Rightarrow> s | Some d \<Rightarrow> d)"

text \<open>
  The segments of a pattern, without its leading and trailing slashes; the pattern \<open>/\<close>
  has none.
\<close>

definition pattern_segments :: "string \<Rightarrow> string list" where
  "pattern_segments pattern =
     (let body = strip_trailing CHR ''/'' (dropWhile (\<lambda>x. x = CHR ''/'') pattern)
      in if body = [] then [] else split_on CHR ''/'' body)"

fun match_segments :: "string list \<Rightarrow> string list \<Rightarrow> (string \<times> string) list option" where
  "match_segments [] [] = Some []"
| "match_segments (p # ps) (s # ss) =
     (case p of
        [] \<Rightarrow> (if s = [] then match_segments ps ss else None)
      | c # name \<Rightarrow>
          if c = CHR '':'' then
            (if s = [] then None
             else (case match_segments ps ss of
                     None \<Rightarrow> None
                   | Some bs \<Rightarrow> Some ((name, safelyDecodeURIComponent s) # bs)))
          else if map to_lower p = map to_lower s then match_segments ps ss else None)"
| "match_segments _ _ = None"

definition matchPath :: "string \<Rightarrow> string \<Rightarrow> (string \<times> string) list option" where
  "matchPath pattern path =
     (case path of
        [] \<Rightarrow> None
      | c # rest \<Rightarrow>
          if c \<noteq> CHR ''/'' then None
          else (let segments = pattern_segments pattern; r = strip_trailing CHR ''/'' rest
                in if segments = [] then (if r = [] then Some [] else None)
                   else match_segments segments (split_on CHR ''/'' r)))"





section \<open>Evaluation in a scope\<close>

lemma bind_e_Inr [simp]: "bind_e (Inr v) f = f v"
  by (simp add: bind_e_def)

lemma bind_e_Inl [simp]: "bind_e (Inl e) f = Inl e"
  by (simp add: bind_e_def)

lemma ident_bound: "x \<in> set sc \<Longrightarrow> ident sc x v = Inr v"
  by (simp add: ident_def)

lemma ident_unbound: "x \<notin> set sc \<Longrightarrow> ident sc x v = Inl (ReferenceError x)"
  by (simp add: ident_def)

lemma map_e_Inr: "map_e (\<lambda>x. Inr (f x)) xs = Inr (map f xs)"
  by (induction xs) simp_all

lemma completed_id: "ident Reader_scope_completed ''id'' v = Inr v"
  by (simp add: ident_def Reader_scope_completed_def Reader_scope_def)

lemma completed_activeTab: "ident Reader_scope_completed ''activeTab'' v = Inr v"
  by (simp add: ident_def Reader_scope_completed_def Reader_scope_def)

lemma completed_showGuide: "ident Reader_scope_completed ''showGuide'' v = Inr v"
  by (simp add: ident_def Reader_scope_completed_def Reader_undeclared_def)

lemma completed_activeCitation: "ident Reader_scope_completed ''activeCitation'' v = Inr v"
  by (simp add: ident_def Reader_scope_completed_def Reader_scope_def)

lemma completed_MOCK_CONTENT: "ident Reader_scope_completed ''MOCK_CONTENT'' v = Inr v"
  by (simp add: ident_def Reader_scope_completed_def Reader_scope_def)

lemma completed_hoveredSentence: "ident Reader_scope_completed ''hoveredSentence'' v = Inr v"
  by (simp add: ident_def Reader_scope_completed_def Reader_undeclared_def)

lemma completed_navigate: "ident Reader_scope_completed ''navigate'' v = Inr v"
  by (simp add: ident_def Reader_scope_completed_def Reader_scope_def)

lemma completed_setActiveTab:
  "setActiveTab Reader_scope_completed v st = Inr (st\<lparr>activeTab := v\<rparr>)"
  by (simp add: setActiveTab_def ident_def Reader_scope_completed_def Reader_scope_def)

lemma completed_setActiveCitation:
  "setActiveCitation Reader_scope_completed v st = Inr (st\<lparr>activeCitation := v\<rparr>)"
  by (simp add: setActiveCitation_def ident_def Reader_scope_completed_def Reader_scope_def)

lemma completed_setHoveredSentence:
  "setHoveredSentence Reader_scope_completed v st = Inr (st\<lparr>hoveredSentence := v\<rparr>)"
  by (simp add: setHoveredSentence_def ident_def Reader_scope_completed_def Reader_undeclared_def)

lemma completed_setShowGuide:
  "setShowGuide Reader_scope_completed v st = Inr (st\<lparr>showGuide := v\<rparr>)"
  by (simp add: setShowGuide_def ident_def Reader_scope_completed_def Reader_undeclared_def)

lemma completed_handleCitationClick:
  "handleCitationClick Reader_scope_completed r st = Inr (st\<lparr>activeCitation := r\<rparr>)"
  by (simp add: handleCitationClick_def ident_def Reader_scope_completed_def Reader_undeclared_def)

lemmas completed_setters = completed_setActiveTab completed_setActiveCitation
  completed_setHoveredSentence completed_setShowGuide completed_handleCitationClick

lemma source_showGuide: "ident Reader_scope ''showGuide'' v = Inl (ReferenceError ''showGuide'')"
  by (simp add: ident_def Reader_scope_def)

lemma source_reads:
  "ident Reader_scope ''id'' a = Inr a"
  "ident Reader_scope ''activeTab'' b = Inr b"
  "ident Reader_scope ''activeCitation'' c = Inr c"
  "ident Reader_scope ''MOCK_CONTENT'' d = Inr d"
  by (simp_all add: ident_def Reader_scope_def)

lemma Reader_render_source:
  "Reader_render Reader_scope params st = Inl (ReferenceError ''showGuide'')"
  by (simp add: Reader_render_def source_reads source_showGuide)

lemma Reader_render_source2:
  "Reader_render (''showGuide'' # Reader_scope) params st = Inl (ReferenceError ''hoveredSentence'')"
  by (simp add: Reader_render_def Reader_main_span_def ident_def Reader_scope_def MOCK_CONTENT_def)

lemma handlers_source:
  "Reader_main_onMouseEnter Reader_scope s st = Inl (ReferenceError ''setHoveredSentence'')"
  "Reader_main_onMouseLeave Reader_scope s st = Inl (ReferenceError ''setHoveredSentence'')"
  "Reader_side_onMouseEnter Reader_scope s st = Inl (ReferenceError ''setHoveredSentence'')"
  "Reader_marker_onClick Reader_scope s st = Inl (ReferenceError ''handleCitationClick'')"
  by (simp_all add: Reader_main_onMouseEnter_def Reader_main_onMouseLeave_def Reader_side_onMouseEnter_def
     Reader_marker_onClick_def setHoveredSentence_def handleCitationClick_def ident_def Reader_scope_def)

lemma main_spans_completed:
  "map_e (Reader_main_span Reader_scope_completed st) xs =
     Inr (map (\<lambda>sentence. \<lparr>ms_key = s_id sentence,
            ms_className = (if hoveredSentence st = Some (s_id sentence) then ''bg-blue-100 text-blue-900''
                            else ''hover:bg-slate-50''),
            ms_text = en sentence,
            ms_marker = (s_citation sentence \<noteq> None)\<rparr>) xs)"
  by (induction xs) (simp_all add: Reader_main_span_def completed_hoveredSentence)

lemma side_items_completed:
  "map_e (Reader_side_item Reader_scope_completed st) xs =
     Inr (map (\<lambda>item. \<lparr>si_key = s_id item,
            si_className = (if hoveredSentence st = Some (s_id item) then ''bg-blue-50 border-l-4 border-blue-500''
                            else ''hover:bg-slate-50 border-l-4 border-transparent''),
            si_label = ''Sentence #'' @ Number_toString (s_id item),
            si_en = en item,
            si_cn = cn item\<rparr>) xs)"
  by (induction xs) (simp_all add: Reader_side_item_def completed_hoveredSentence)

lemma Reader_render_total:
  "\<exists>v. Reader_render Reader_scope_completed params st = Inr v"
  by (simp add: Reader_render_def completed_id completed_activeTab completed_showGuide
      completed_activeCitation completed_MOCK_CONTENT main_spans_completed side_items_completed)

lemma filter_ids:
  "distinct (map f xs) \<Longrightarrow> map f (filter (\<lambda>x. h = Some (f x)) xs) =
     (case h of None \<Rightarrow> [] | Some k \<Rightarrow> if k \<in> f ` set xs then [k] else [])"
proof (induction xs)
  case Nil
  then show ?case by (simp split: option.splits)
next
  case (Cons x xs)
  then show ?case by (auto split: option.splits simp: image_iff)
qed

lemma distinct_ids: "distinct (map s_id MOCK_CONTENT)"
  by (simp add: MOCK_CONTENT_def sentence_1_def sentence_2_def sentence_3_def)

section \<open>Decimal text and routes\<close>


















lemma pattern_segments_App:
  "pattern_segments ''/'' = []"
  "pattern_segments ''/dashboard'' = [''dashboard'']"
  "pattern_segments ''/read/:id'' = [''read'', '':id'']"
  by (simp_all add: pattern_segments_def strip_trailing_def)




text \<open>No path matches two of the patterns of \<open>App_routes\<close>.\<close>

lemma match_segments_length:
  "match_segments ps ss = Some bs \<Longrightarrow> length ss = length ps"
  by (induction ps ss arbitrary: bs rule: match_segments.induct)
     (auto split: list.splits if_splits option.splits)

lemma App_routes_exclusive:
  "matchPath ''/'' path = None \<or> matchPath ''/dashboard'' path = None"
  "matchPath ''/'' path = None \<or> matchPath ''/read/:id'' path = None"
  "matchPath ''/dashboard'' path = None \<or> matchPath ''/read/:id'' path = None"
proof -
  show "matchPath ''/'' path = None \<or> matchPath ''/dashboard'' path = None"
    by (auto simp add: matchPath_def pattern_segments_App Let_def
        split: list.splits if_splits option.splits)
  show "matchPath ''/'' path = None \<or> matchPath ''/read/:id'' path = None"
    by (auto simp add: matchPath_def pattern_segments_App Let_def
        split: list.splits if_splits option.splits)
  show "matchPath ''/dashboard'' path = None \<or> matchPath ''/read/:id'' path = None"
  proof (rule ccontr)
    assume "\<not> ?thesis"
    then obtain a b r where "match_segments [''dashboard''] r = Some a"
      and "match_segments [''read'', '':id''] r = Some b"
      by (auto simp add: matchPath_def pattern_segments_App Let_def
          split: list.splits if_splits)
    then have "length r = 1" "length r = 2"
      by (auto dest: match_segments_length)
    then show False by simp
  qed
qed



section \<open>The completed reader view\<close>

lemma Reader_render_completed:
  "Reader_render Reader_scope_completed params st =
     Inr \<lparr>rv_header = Reader_header (map_of params ''id''),
          rv_tab_translation = (if activeTab st = ''translation'' then ''bg-white shadow text-blue-600''
                                else ''text-slate-500 hover:text-slate-700''),
          rv_tab_chat = (if activeTab st = ''chat'' then ''bg-white shadow text-purple-600''
                         else ''text-slate-500 hover:text-slate-700''),
          rv_guide = showGuide st,
          rv_cards = (case activeCitation st of None \<Rightarrow> [] | Some c \<Rightarrow> [CitationCard c]),
          rv_main = map (\<lambda>sentence. \<lparr>ms_key = s_id sentence,
            ms_className = (if hoveredSentence st = Some (s_id sentence) then ''bg-blue-100 text-blue-900''
                            else ''hover:bg-slate-50''),
            ms_text = en sentence,
            ms_marker = (s_citation sentence \<noteq> None)\<rparr>) MOCK_CONTENT,
          rv_side = (if activeTab st = ''translation'' then
             TranslationPanel (map (\<lambda>item. \<lparr>si_key = s_id item,
            si_className = (if hoveredSentence st = Some (s_id item) then ''bg-blue-50 border-l-4 border-blue-500''
                            else ''hover:bg-slate-50 border-l-4 border-transparent''),
            si_label = ''Sentence #'' @ Number_toString (s_id item),
            si_en = en item,
            si_cn = cn item\<rparr>) MOCK_CONTENT)
            else if activeTab st = ''chat'' then ChatPanel else NoPanel)\<rparr>"
  by (simp add: Reader_render_def completed_id completed_activeTab completed_showGuide
      completed_activeCitation completed_MOCK_CONTENT main_spans_completed side_items_completed)

lemma main_highlighted_render:
  "Reader_render Reader_scope_completed params st = Inr v \<Longrightarrow>
   main_highlighted v = shown (hoveredSentence st)"
  unfolding shown_def Reader_render_completed
  by (auto simp add: main_highlighted_def filter_map comp_def filter_ids [OF distinct_ids, symmetric]
      cong: if_cong)

lemma side_highlighted_render:
  "Reader_render Reader_scope_completed params st = Inr v \<Longrightarrow>
   side_highlighted v = (if activeTab st = ''translation'' then shown (hoveredSentence st) else [])"
  unfolding shown_def Reader_render_completed
  by (auto simp add: side_highlighted_def filter_map comp_def filter_ids [OF distinct_ids, symmetric]
      cong: if_cong)

lemma cards_render:
  "Reader_render Reader_scope_completed params st = Inr v \<Longrightarrow>
   rv_cards v = (case activeCitation st of None \<Rightarrow> [] | Some c \<Rightarrow> [CitationCard c])"
  unfolding Reader_render_completed by auto


lemma shown_length: "length (shown h) \<le> Suc 0"
  by (simp add: shown_def split: option.splits)

lemma shown_member: "s \<in> set MOCK_CONTENT \<Longrightarrow> shown (Some (s_id s)) = [s_id s]"
  by (simp add: shown_def)

lemma shown_None: "shown None = []"
  by (simp add: shown_def)

lemma dispatch_hover:
  "is_hover_event e \<Longrightarrow>
   dispatch Reader_scope_completed (fst e) (snd e) st = Inr ([], st\<lparr>hoveredSentence := hover_argument e\<rparr>)"
  by (cases e rule: is_hover_event.cases)
     (simp_all add: dispatch_def Reader_main_onMouseEnter_def Reader_main_onMouseLeave_def
        Reader_side_onMouseEnter_def completed_setHoveredSentence)

lemma run_hover:
  "evs \<noteq> [] \<Longrightarrow> \<forall>e\<in>set evs. is_hover_event e \<Longrightarrow>
   run Reader_scope_completed evs st =
     Inr (Mounted (st\<lparr>hoveredSentence := hover_argument (last evs)\<rparr>))"
proof (induction evs arbitrary: st)
  case Nil
  then show ?case by simp
next
  case (Cons e es)
  show ?case
  proof (cases "es = []")
    case True
    with Cons.prems show ?thesis by (simp add: dispatch_hover)
  next
    case False
    with Cons show ?thesis by (simp add: dispatch_hover)
  qed
qed

lemma hover_argument_shown:
  "is_hover_event e \<Longrightarrow> in_document e \<Longrightarrow>
   shown (hover_argument e) = (case hover_argument e of None \<Rightarrow> [] | Some k \<Rightarrow> [k])"
  by (cases e rule: is_hover_event.cases) (simp_all add: shown_def)

lemma ids: "s_id sentence_1 = 1" "s_id sentence_2 = 2" "s_id sentence_3 = 3"
  by (simp_all add: sentence_1_def sentence_2_def sentence_3_def)

lemma in_doc: "sentence_1 \<in> set MOCK_CONTENT" "sentence_2 \<in> set MOCK_CONTENT"
  "sentence_3 \<in> set MOCK_CONTENT"
  by (simp_all add: MOCK_CONTENT_def)

lemma citation_3: "s_citation sentence_3 = Some ref_1"
  by (simp add: sentence_3_def)

lemma marker_onClick_completed:
  "Reader_marker_onClick Reader_scope_completed s st =
     Inr ([StopPropagation], st\<lparr>activeCitation := s_citation s\<rparr>)"
  by (simp add: Reader_marker_onClick_def completed_handleCitationClick)

text \<open>
  Sequences of the three events that call \<open>setHoveredSentence\<close>, on sentences of the
  document: each pane highlights at most one unit, and after a non-empty sequence it is
  the unit of the last event, or none after a mouse-leave on a span of the reading pane.
\<close>

lemma handled_hover_latest_wins:
  assumes "\<forall>e\<in>set evs. is_hover_event e \<and> in_document e"
  shows "\<exists>st' v. run Reader_scope_completed evs st = Inr (Mounted st')
     \<and> Reader_render Reader_scope_completed params st' = Inr v
     \<and> activeTab st' = activeTab st
     \<and> length (main_highlighted v) \<le> 1 \<and> length (side_highlighted v) \<le> 1
     \<and> (evs \<noteq> [] \<longrightarrow>
          hoveredSentence st' = hover_argument (last evs)
        \<and> main_highlighted v = (case hover_argument (last evs) of None \<Rightarrow> [] | Some k \<Rightarrow> [k])
        \<and> side_highlighted v =
            (if activeTab st = ''translation''
             then (case hover_argument (last evs) of None \<Rightarrow> [] | Some k \<Rightarrow> [k]) else []))"
proof (cases "evs = []")
  case True
  obtain v where v: "Reader_render Reader_scope_completed params st = Inr v"
    using Reader_render_total by blast
  have "length (main_highlighted v) \<le> 1" "length (side_highlighted v) \<le> 1"
    by (simp_all add: main_highlighted_render [OF v] side_highlighted_render [OF v] shown_length)
  with True v show ?thesis by simp
next
  case False
  define st' where "st' = st\<lparr>hoveredSentence := hover_argument (last evs)\<rparr>"
  have r: "run Reader_scope_completed evs st = Inr (Mounted st')"
    unfolding st'_def using False assms by (intro run_hover) auto
  obtain v where v: "Reader_render Reader_scope_completed params st' = Inr v"
    using Reader_render_total by blast
  have l: "is_hover_event (last evs)" "in_document (last evs)"
    using False assms last_in_set by blast+
  have h: "hoveredSentence st' = hover_argument (last evs)"
    by (simp add: st'_def)
  have m: "main_highlighted v = (case hover_argument (last evs) of None \<Rightarrow> [] | Some k \<Rightarrow> [k])"
    by (simp add: main_highlighted_render [OF v] h hover_argument_shown [OF l])
  have t: "activeTab st' = activeTab st"
    by (simp add: st'_def)
  have s: "side_highlighted v =
            (if activeTab st = ''translation''
             then (case hover_argument (last evs) of None \<Rightarrow> [] | Some k \<Rightarrow> [k]) else [])"
    by (simp add: side_highlighted_render [OF v] h t hover_argument_shown [OF l])
  have "length (main_highlighted v) \<le> 1" "length (side_highlighted v) \<le> 1"
    by (simp_all add: main_highlighted_render [OF v] side_highlighted_render [OF v] shown_length)
  with r v h t m s show ?thesis by blast
qed


section \<open>The claims\<close>

text \<open>
  Claim C1. The claim is that after every sequence of hover events from either pane the
  highlighted unit is the one of the most recent event, and that no unit is highlighted
  when the most recent event was a hover-leave. The spans of the reading pane bind
  mouse-enter and mouse-leave; the entries of the side panel bind mouse-enter only. On
  the freshly mounted view (with the missing hover state supplied) the entry of sentence
  1 is rendered and binds no mouse-leave handler: after a mouse-enter and a mouse-leave
  on it, sentence 1 is still the hovered one and both panes highlight it. The same two
  events on the span of sentence 1 in the reading pane leave no unit highlighted.
\<close>

theorem side_leave_keeps_highlight:
  "rendered (Reader_initial None False) (SideEntry sentence_1)
   \<and> handler_of Reader_scope_completed MouseLeave (SideEntry sentence_1) = None
   \<and> run Reader_scope_completed
       [(MouseEnter, SideEntry sentence_1), (MouseLeave, SideEntry sentence_1)]
       (Reader_initial None False) =
     Inr (Mounted \<lparr>activeTab = ''translation'', activeCitation = None,
       hoveredSentence = Some 1, showGuide = False\<rparr>)
   \<and> map_sum id main_highlighted (Reader_render Reader_scope_completed []
        \<lparr>activeTab = ''translation'', activeCitation = None, hoveredSentence = Some 1,
         showGuide = False\<rparr>) = Inr [1]
   \<and> map_sum id side_highlighted (Reader_render Reader_scope_completed []
        \<lparr>activeTab = ''translation'', activeCitation = None, hoveredSentence = Some 1,
         showGuide = False\<rparr>) = Inr [1]
   \<and> run Reader_scope_completed
       [(MouseEnter, MainSentence sentence_1), (MouseLeave, MainSentence sentence_1)]
       (Reader_initial None False) =
     Inr (Mounted \<lparr>activeTab = ''translation'', activeCitation = None,
       hoveredSentence = None, showGuide = False\<rparr>)
   \<and> map_sum id main_highlighted (Reader_render Reader_scope_completed []
        \<lparr>activeTab = ''translation'', activeCitation = None, hoveredSentence = None,
         showGuide = False\<rparr>) = Inr []"
proof -
  obtain v where v: "Reader_render Reader_scope_completed []
        \<lparr>activeTab = ''translation'', activeCitation = None, hoveredSentence = Some 1,
         showGuide = False\<rparr> = Inr v"
    using Reader_render_total by blast
  obtain w where w: "Reader_render Reader_scope_completed []
        \<lparr>activeTab = ''translation'', activeCitation = None, hoveredSentence = None,
         showGuide = False\<rparr> = Inr w"
    using Reader_render_total by blast
  have "main_highlighted v = [1]" "side_highlighted v = [1]" "main_highlighted w = []"
    using shown_member [OF in_doc(1)]
    by (simp_all add: main_highlighted_render [OF v] side_highlighted_render [OF v]
        main_highlighted_render [OF w] shown_None ids)
  with v w show ?thesis
    by (simp add: in_doc ids dispatch_def Reader_side_onMouseEnter_def
        Reader_main_onMouseEnter_def Reader_main_onMouseLeave_def
        completed_setHoveredSentence Reader_initial_def)
qed

text \<open>
  Claim C2. The claim is that no operation of the reader view can fault and that every
  variable read while rendering is defined. In the scope the source gives \<open>Reader\<close>,
  rendering throws \<open>ReferenceError\<close> at the first read of \<open>showGuide\<close>, in every state
  and for every route parameter; with \<open>showGuide\<close> alone bound it throws at
  \<open>hoveredSentence\<close>; and the hover handlers, the marker's click handler and the
  banner's buttons throw at \<open>setHoveredSentence\<close>, \<open>handleCitationClick\<close> and
  \<open>setShowGuide\<close>.
\<close>

theorem Reader_source_faults:
  "Reader_render Reader_scope params st = Inl (ReferenceError ''showGuide'')
   \<and> Reader_render (''showGuide'' # Reader_scope) params st = Inl (ReferenceError ''hoveredSentence'')
   \<and> dispatch Reader_scope MouseEnter (MainSentence s) st = Inl (ReferenceError ''setHoveredSentence'')
   \<and> dispatch Reader_scope MouseLeave (MainSentence s) st = Inl (ReferenceError ''setHoveredSentence'')
   \<and> dispatch Reader_scope MouseEnter (SideEntry s) st = Inl (ReferenceError ''setHoveredSentence'')
   \<and> dispatch Reader_scope Click (Marker s) st = Inl (ReferenceError ''handleCitationClick'')
   \<and> dispatch Reader_scope Click GuideClose st = Inl (ReferenceError ''setShowGuide'')"
proof -
  have "dispatch Reader_scope Click GuideClose st = Inl (ReferenceError ''setShowGuide'')"
    by (simp add: dispatch_def Reader_guide_onClick_def setShowGuide_def ident_def Reader_scope_def)
  then show ?thesis
    by (simp add: Reader_render_source Reader_render_source2 dispatch_def handlers_source)
qed

text \<open>
  Claim C3. With the missing declarations supplied, the citation marker of sentence 3 is
  rendered, and a click on it makes \<open>ref-1\<close> the active citation and stops the
  propagation, so that no handler of an enclosing element runs, whatever handlers
  \<open>hs\<close> the enclosing elements bind. The hovered sentence is unchanged, and the view
  rendered afterwards shows one citation card, with the title, the author string and
  the abstract of \<open>ref-1\<close>.
\<close>

theorem marker_click_opens_ref_1:
  "rendered st (Marker sentence_3)
   \<and> dispatch Reader_scope_completed Click (Marker sentence_3) st =
       Inr ([StopPropagation], st\<lparr>activeCitation := Some ref_1\<rparr>)
   \<and> bubble (Some (Reader_marker_onClick Reader_scope_completed sentence_3) # hs) st =
       Inr ([StopPropagation], st\<lparr>activeCitation := Some ref_1\<rparr>)
   \<and> hoveredSentence (st\<lparr>activeCitation := Some ref_1\<rparr>) = hoveredSentence st
   \<and> (\<exists>v. Reader_render Reader_scope_completed params (st\<lparr>activeCitation := Some ref_1\<rparr>) = Inr v
        \<and> rv_cards v =
            [\<lparr>card_title = ''Neural Machine Translation by Jointly Learning to Align and Translate'',
              card_authors = ''Bahdanau et al., 2014'',
              card_abstract = ''This paper introduces the attention mechanism in RNNs, allowing the model to search for parts of a source sentence that are relevant to predicting a target word.''\<rparr>])"
proof -
  have "CitationCard ref_1 =
      \<lparr>card_title = ''Neural Machine Translation by Jointly Learning to Align and Translate'',
       card_authors = ''Bahdanau et al., 2014'',
       card_abstract = ''This paper introduces the attention mechanism in RNNs, allowing the model to search for parts of a source sentence that are relevant to predicting a target word.''\<rparr>"
    by (simp add: CitationCard_def ref_1_def)
  then have "\<exists>v. Reader_render Reader_scope_completed params (st\<lparr>activeCitation := Some ref_1\<rparr>) = Inr v
        \<and> rv_cards v =
            [\<lparr>card_title = ''Neural Machine Translation by Jointly Learning to Align and Translate'',
              card_authors = ''Bahdanau et al., 2014'',
              card_abstract = ''This paper introduces the attention mechanism in RNNs, allowing the model to search for parts of a source sentence that are relevant to predicting a target word.''\<rparr>]"
    unfolding Reader_render_completed by simp
  then show ?thesis
    by (simp add: dispatch_def marker_onClick_completed citation_3 in_doc)
qed

theorem marker_click_opens_ref_1_witness:
  "dispatch Reader_scope_completed Click (Marker sentence_3) (Reader_initial (Some 3) False) =
     Inr ([StopPropagation],
       \<lparr>activeTab = ''translation'', activeCitation = Some ref_1, hoveredSentence = Some 3,
        showGuide = False\<rparr>)
   \<and> bubble [Some (Reader_marker_onClick Reader_scope_completed sentence_3),
        Some (Reader_main_onMouseLeave Reader_scope_completed sentence_3)]
       (Reader_initial (Some 3) False) =
     Inr ([StopPropagation],
       \<lparr>activeTab = ''translation'', activeCitation = Some ref_1, hoveredSentence = Some 3,
        showGuide = False\<rparr>)"
  using marker_click_opens_ref_1 [of "Reader_initial (Some 3) False"
      "[Some (Reader_main_onMouseLeave Reader_scope_completed sentence_3)]" "[]"]
  by (simp add: Reader_initial_def)

text \<open>
  Claim C4. In every state, opening citation \<open>a\<close> and then citation \<open>b\<close> leaves \<open>b\<close> as
  the active citation and the view shows the card of \<open>b\<close> only; closing sets the active
  citation to none whatever it was and the view shows no card (the close handler does so
  in the scope of the source as well); and no state renders more than one card.
\<close>

theorem citation_replace_and_close:
  "(\<exists>st1 st2 v. handleCitationClick Reader_scope_completed (Some a) st = Inr st1
        \<and> activeCitation st1 = Some a
        \<and> handleCitationClick Reader_scope_completed (Some b) st1 = Inr st2
        \<and> st2 = st\<lparr>activeCitation := Some b\<rparr>
        \<and> Reader_render Reader_scope_completed params st2 = Inr v
        \<and> rv_cards v = [CitationCard b])
   \<and> (\<exists>st' v. Reader_card_onClose Reader_scope_completed st = Inr ([], st')
        \<and> st' = st\<lparr>activeCitation := None\<rparr>
        \<and> Reader_render Reader_scope_completed params st' = Inr v
        \<and> rv_cards v = [])
   \<and> Reader_card_onClose Reader_scope st = Inr ([], st\<lparr>activeCitation := None\<rparr>)
   \<and> (\<exists>v. Reader_render Reader_scope_completed params st = Inr v \<and> length (rv_cards v) \<le> 1)"
proof -
  have "Reader_card_onClose Reader_scope st = Inr ([], st\<lparr>activeCitation := None\<rparr>)"
    by (simp add: Reader_card_onClose_def setActiveCitation_def ident_def Reader_scope_def)
  then show ?thesis
    unfolding Reader_render_completed
    by (simp add: completed_handleCitationClick Reader_card_onClose_def completed_setActiveCitation
        split: option.splits)
qed

theorem citation_replace_and_close_witness:
  "\<exists>st1 st2 v. handleCitationClick Reader_scope_completed (Some ref_1) (Reader_initial None False) = Inr st1
        \<and> handleCitationClick Reader_scope_completed (Some (ref_1\<lparr>c_id := ''ref-2''\<rparr>)) st1 = Inr st2
        \<and> Reader_render Reader_scope_completed [] st2 = Inr v
        \<and> rv_cards v = [CitationCard (ref_1\<lparr>c_id := ''ref-2''\<rparr>)]"
  using citation_replace_and_close [of ref_1 "Reader_initial None False" "ref_1\<lparr>c_id := ''ref-2''\<rparr>" "[]"]
  by blast

text \<open>
  Claim C5. \<open>setActiveTab\<close> changes the active tab and nothing else: the hovered
  sentence, the active citation and the banner flag are as before, for every state and
  every tab value, in the scope of the source and in the completed one. In particular, after a mouse-leave on a sentence of the reading pane,
  switching to the chat tab and back to the translation tab leaves the hovered sentence
  at none, and neither pane highlights a unit.
\<close>

theorem tab_switch_frame:
  "setActiveTab Reader_scope tab st = Inr (st\<lparr>activeTab := tab\<rparr>)
   \<and> (\<exists>st'. setActiveTab Reader_scope_completed tab st = Inr st'
        \<and> activeTab st' = tab
        \<and> hoveredSentence st' = hoveredSentence st
        \<and> activeCitation st' = activeCitation st
        \<and> showGuide st' = showGuide st)
   \<and> (\<exists>st' v. run Reader_scope_completed
          [(MouseLeave, MainSentence s), (Click, TabChat), (Click, TabTranslation)] st =
            Inr (Mounted st')
        \<and> hoveredSentence st' = None
        \<and> Reader_render Reader_scope_completed params st' = Inr v
        \<and> main_highlighted v = [] \<and> side_highlighted v = [])"
proof -
  have r: "run Reader_scope_completed
          [(MouseLeave, MainSentence s), (Click, TabChat), (Click, TabTranslation)] st =
        Inr (Mounted (st\<lparr>hoveredSentence := None, activeTab := ''translation''\<rparr>))"
    by (simp add: dispatch_def Reader_main_onMouseLeave_def Reader_tab_chat_onClick_def
        Reader_tab_translation_onClick_def completed_setters)
  obtain v where v: "Reader_render Reader_scope_completed params
      (st\<lparr>hoveredSentence := None, activeTab := ''translation''\<rparr>) = Inr v"
    using Reader_render_total by blast
  have "main_highlighted v = []" "side_highlighted v = []"
    by (simp_all add: main_highlighted_render [OF v] side_highlighted_render [OF v] shown_None)
  moreover have "setActiveTab Reader_scope tab st = Inr (st\<lparr>activeTab := tab\<rparr>)"
    by (simp add: setActiveTab_def ident_def Reader_scope_def)
  ultimately show ?thesis using r v by (simp add: completed_setActiveTab)
qed

theorem tab_switch_frame_witness:
  "\<exists>st' v. run Reader_scope_completed
          [(MouseLeave, MainSentence sentence_2), (Click, TabChat), (Click, TabTranslation)]
          (Reader_initial (Some 2) False) = Inr (Mounted st')
        \<and> hoveredSentence st' = None
        \<and> Reader_render Reader_scope_completed [] st' = Inr v
        \<and> main_highlighted v = [] \<and> side_highlighted v = []"
  using tab_switch_frame [of "''chat''" "Reader_initial (Some 2) False" sentence_2 "[]"]
  by blast

text \<open>
  Claim C6. For every sentence of the document, mouse-enter on its span in the reading
  pane and mouse-enter on its entry in the side panel give the same result: the same
  next state, in which the reading pane highlights exactly that sentence, and so does
  the side panel whenever it shows the translation entries (as it does when an entry
  can be entered at all).
\<close>

theorem hover_symmetric:
  assumes "s \<in> set MOCK_CONTENT"
  shows "dispatch Reader_scope_completed MouseEnter (MainSentence s) st =
         dispatch Reader_scope_completed MouseEnter (SideEntry s) st
   \<and> (\<exists>st' v. dispatch Reader_scope_completed MouseEnter (SideEntry s) st = Inr ([], st')
        \<and> hoveredSentence st' = Some (s_id s)
        \<and> activeTab st' = activeTab st
        \<and> Reader_render Reader_scope_completed params st' = Inr v
        \<and> main_highlighted v = [s_id s]
        \<and> side_highlighted v = (if activeTab st = ''translation'' then [s_id s] else []))"
proof -
  have d: "dispatch Reader_scope_completed MouseEnter (SideEntry s) st =
      Inr ([], st\<lparr>hoveredSentence := Some (s_id s)\<rparr>)"
    "dispatch Reader_scope_completed MouseEnter (MainSentence s) st =
      Inr ([], st\<lparr>hoveredSentence := Some (s_id s)\<rparr>)"
    by (simp_all add: dispatch_def Reader_side_onMouseEnter_def Reader_main_onMouseEnter_def
        completed_setHoveredSentence)
  obtain v where v: "Reader_render Reader_scope_completed params
      (st\<lparr>hoveredSentence := Some (s_id s)\<rparr>) = Inr v"
    using Reader_render_total by blast
  have "main_highlighted v = [s_id s]"
    "side_highlighted v = (if activeTab st = ''translation'' then [s_id s] else [])"
    by (simp_all add: main_highlighted_render [OF v] side_highlighted_render [OF v]
        shown_member [OF assms])
  with d v show ?thesis by simp
qed

theorem hover_symmetric_witness:
  "dispatch Reader_scope_completed MouseEnter (MainSentence sentence_3) (Reader_initial None False) =
   dispatch Reader_scope_completed MouseEnter (SideEntry sentence_3) (Reader_initial None False)
   \<and> (\<exists>st' v. dispatch Reader_scope_completed MouseEnter (SideEntry sentence_3)
          (Reader_initial None False) = Inr ([], st')
        \<and> Reader_render Reader_scope_completed [] st' = Inr v
        \<and> main_highlighted v = [3] \<and> side_highlighted v = [3])"
  using hover_symmetric [where s = sentence_3 and st = "Reader_initial None False" and params = "[]"]
  by (auto simp add: in_doc ids Reader_initial_def)

text \<open>
  Claim C7. The row of every paper record renders without an exception. It shows the
  ready badge alone when the status is \<open>ready\<close>, the processing badge alone when the
  status is \<open>processing\<close>, and no badge for any other status.
\<close>

theorem PaperItem_badges:
  "\<exists>row. PaperItem (paper_item_props paper) = Inr row
     \<and> row_badges row =
         (if p_status paper = ''ready'' then [ReadyBadge]
          else if p_status paper = ''processing'' then [ProcessingBadge]
          else [])"
  by (simp add: PaperItem_def paper_item_props_def)

theorem PaperItem_badges_witness:
  "\<exists>row. PaperItem (paper_item_props
       \<lparr>p_id = 4, p_title = ''Untitled'', p_date = ''now'', p_status = ''failed'', p_tags = []\<rparr>) = Inr row
     \<and> row_badges row = []"
  using PaperItem_badges [of "\<lparr>p_id = 4, p_title = ''Untitled'', p_date = ''now'',
      p_status = ''failed'', p_tags = []\<rparr>"]
  by simp

lemma Dashboard_render_source:
  "Dashboard_render FeatureCard_exports st = Inl (SyntaxError ''FeatureCard'')"
  by (simp add: Dashboard_render_def import_named_def FeatureCard_exports_def)




text \<open>
  Claim C9. A drop on the upload target prevents the default action, clears the drag
  flag and raises the alert that the backend integration is missing, in every state and
  whatever files the event carries: the result does not depend on the event. Drag-over
  sets the flag (and prevents the default action), drag-leave clears it, and neither
  does anything else.
\<close>

theorem upload_is_a_stub:
  "Dashboard_onDrop e st =
     ([PreventDefault, Alert ''Backend integration needed for file upload''], \<lparr>isDragging = False\<rparr>)
   \<and> Dashboard_onDrop e st = Dashboard_onDrop e' st
   \<and> Dashboard_onDragOver e st = ([PreventDefault], \<lparr>isDragging = True\<rparr>)
   \<and> Dashboard_onDragLeave e st = ([], \<lparr>isDragging = False\<rparr>)"
  by (simp add: Dashboard_onDrop_def Dashboard_onDragOver_def Dashboard_onDragLeave_def)

theorem upload_is_a_stub_witness:
  "Dashboard_onDrop \<lparr>de_files = [''paper.pdf'']\<rparr> \<lparr>isDragging = True\<rparr> =
     ([PreventDefault, Alert ''Backend integration needed for file upload''], \<lparr>isDragging = False\<rparr>)
   \<and> Dashboard_onDrop \<lparr>de_files = [''paper.pdf'']\<rparr> \<lparr>isDragging = True\<rparr> =
       Dashboard_onDrop \<lparr>de_files = []\<rparr> \<lparr>isDragging = True\<rparr>"
  using upload_is_a_stub [of "\<lparr>de_files = [''paper.pdf'']\<rparr>" "\<lparr>isDragging = True\<rparr>"
      "\<lparr>de_files = []\<rparr>"]
  by metis

lemma dispatch_quiet:
  assumes "\<not> is_hover_event (k, t)" and "(k, t) \<noteq> (Click, TabChat)"
    and "(k, t) \<noteq> (Click, BackButton)"
  shows "\<exists>effs st'. dispatch Reader_scope_completed k t st = Inr (effs, st')
     \<and> navigation effs = None
     \<and> hoveredSentence st' = hoveredSentence st
     \<and> (activeTab st' = activeTab st \<or> activeTab st' = ''translation'')"
  using assms
  by (cases k; cases t)
     (simp_all add: dispatch_def Reader_tab_translation_onClick_def
        Reader_guide_onClick_def Reader_card_onClose_def
        marker_onClick_completed completed_setters)

lemma run_quiet:
  assumes "\<forall>e\<in>set evs. \<not> is_hover_event e \<and> e \<noteq> (Click, TabChat) \<and> e \<noteq> (Click, BackButton)"
    and "activeTab st = ''translation''"
  shows "\<exists>st'. run Reader_scope_completed evs st = Inr (Mounted st')
     \<and> hoveredSentence st' = hoveredSentence st \<and> activeTab st' = ''translation''"
  using assms
proof (induction evs arbitrary: st)
  case Nil
  then show ?case by simp
next
  case (Cons e es)
  then have "\<not> is_hover_event (fst e, snd e)" "(fst e, snd e) \<noteq> (Click, TabChat)"
    "(fst e, snd e) \<noteq> (Click, BackButton)"
    by simp_all
  from dispatch_quiet [OF this, of st] obtain effs st1 where
    d: "dispatch Reader_scope_completed (fst e) (snd e) st = Inr (effs, st1)"
    and n: "navigation effs = None"
    and h: "hoveredSentence st1 = hoveredSentence st"
    and t: "activeTab st1 = activeTab st \<or> activeTab st1 = ''translation''"
    by blast
  from t Cons.prems(2) have t1: "activeTab st1 = ''translation''"
    by auto
  from Cons.prems(1) have "\<forall>e\<in>set es. \<not> is_hover_event e \<and> e \<noteq> (Click, TabChat)
      \<and> e \<noteq> (Click, BackButton)"
    by simp
  from Cons.IH [OF this t1] obtain st' where
    "run Reader_scope_completed es st1 = Inr (Mounted st')"
    and "hoveredSentence st' = hoveredSentence st1" and "activeTab st' = ''translation''"
    by blast
  with d n h show ?case by simp
qed

text \<open>
  Claim C10, as amended. An entry of the side panel binds no mouse-leave handler, so a
  mouse-leave on it changes nothing. After a mouse-enter on an entry that the side panel
  shows, the sentence stays the hovered one and stays highlighted in both panes through
  every sequence of events none of which is a mouse-enter on a sentence in either pane,
  a mouse-leave on a sentence of the reading pane, a click on the Copilot tab or a click
  on the back button.
\<close>

theorem side_leave_keeps_hover:
  assumes "rendered st (SideEntry s)"
    and "\<forall>e\<in>set evs. \<not> is_hover_event e \<and> e \<noteq> (Click, TabChat) \<and> e \<noteq> (Click, BackButton)"
  shows "handler_of sc MouseLeave (SideEntry s) = None
   \<and> dispatch Reader_scope_completed MouseLeave (SideEntry s) st = Inr ([], st)
   \<and> (\<exists>st' v. run Reader_scope_completed ((MouseEnter, SideEntry s) # evs) st = Inr (Mounted st')
        \<and> hoveredSentence st' = Some (s_id s)
        \<and> activeTab st' = ''translation''
        \<and> Reader_render Reader_scope_completed params st' = Inr v
        \<and> main_highlighted v = [s_id s]
        \<and> side_highlighted v = [s_id s])"
proof -
  from assms(1) have s: "s \<in> set MOCK_CONTENT" and t: "activeTab st = ''translation''"
    by simp_all
  have d: "dispatch Reader_scope_completed MouseEnter (SideEntry s) st =
      Inr ([], st\<lparr>hoveredSentence := Some (s_id s)\<rparr>)"
    by (simp add: dispatch_def Reader_side_onMouseEnter_def completed_setHoveredSentence)
  from t have "activeTab (st\<lparr>hoveredSentence := Some (s_id s)\<rparr>) = ''translation''"
    by simp
  from run_quiet [OF assms(2) this]
  obtain st' where r: "run Reader_scope_completed evs (st\<lparr>hoveredSentence := Some (s_id s)\<rparr>) =
      Inr (Mounted st')"
    and h: "hoveredSentence st' = Some (s_id s)" and t': "activeTab st' = ''translation''"
    by auto
  obtain v where v: "Reader_render Reader_scope_completed params st' = Inr v"
    using Reader_render_total by blast
  have "main_highlighted v = [s_id s]" "side_highlighted v = [s_id s]"
    by (simp_all add: main_highlighted_render [OF v] side_highlighted_render [OF v] h t'
        shown_member [OF s])
  with d r h t' v show ?thesis by (simp add: dispatch_def)
qed

theorem side_leave_keeps_hover_witness:
  "dispatch Reader_scope_completed MouseLeave (SideEntry sentence_1) (Reader_initial None True) =
     Inr ([], Reader_initial None True)
   \<and> (\<exists>st' v. run Reader_scope_completed
          [(MouseEnter, SideEntry sentence_1), (MouseLeave, SideEntry sentence_1),
           (Click, GuideGotIt), (Click, TabTranslation)]
          (Reader_initial None True) = Inr (Mounted st')
        \<and> hoveredSentence st' = Some 1
        \<and> Reader_render Reader_scope_completed [] st' = Inr v
        \<and> main_highlighted v = [1] \<and> side_highlighted v = [1])"
  using side_leave_keeps_hover [where s = sentence_1
      and evs = "[(MouseLeave, SideEntry sentence_1), (Click, GuideGotIt),
           (Click, TabTranslation)]"
      and sc = Reader_scope_completed and st = "Reader_initial None True" and params = "[]"]
  by (auto simp add: in_doc ids Reader_initial_def)

text \<open>
  Claim C10 as stated says that the highlight of the entry lasts until the pointer next
  enters or leaves a sentence of the reading pane. On the freshly mounted view, after a
  mouse-enter on the entry of sentence 1, none of the following involves a sentence of
  the reading pane: a mouse-leave on the entry and a mouse-enter on the entry of
  sentence 2, after which the highlighted unit is sentence 2; a click on the Copilot
  tab, after which the side panel shows the chat and no entry; a click on the back
  button, after which the view is unmounted.
\<close>

theorem side_highlight_ended_counterexample:
  "rendered (Reader_initial None False) (SideEntry sentence_1)
   \<and> rendered (Reader_initial None False) (SideEntry sentence_2)
   \<and> s_id sentence_1 = 1
   \<and> run Reader_scope_completed
       [(MouseEnter, SideEntry sentence_1), (MouseLeave, SideEntry sentence_1),
        (MouseEnter, SideEntry sentence_2)] (Reader_initial None False) =
     Inr (Mounted \<lparr>activeTab = ''translation'', activeCitation = None,
       hoveredSentence = Some 2, showGuide = False\<rparr>)
   \<and> map_sum id main_highlighted (Reader_render Reader_scope_completed []
        \<lparr>activeTab = ''translation'', activeCitation = None, hoveredSentence = Some 2,
         showGuide = False\<rparr>) = Inr [2]
   \<and> map_sum id side_highlighted (Reader_render Reader_scope_completed []
        \<lparr>activeTab = ''translation'', activeCitation = None, hoveredSentence = Some 2,
         showGuide = False\<rparr>) = Inr [2]
   \<and> run Reader_scope_completed
       [(MouseEnter, SideEntry sentence_1), (Click, TabChat)] (Reader_initial None False) =
     Inr (Mounted \<lparr>activeTab = ''chat'', activeCitation = None,
       hoveredSentence = Some 1, showGuide = False\<rparr>)
   \<and> map_sum id rv_side (Reader_render Reader_scope_completed []
        \<lparr>activeTab = ''chat'', activeCitation = None, hoveredSentence = Some 1,
         showGuide = False\<rparr>) = Inr ChatPanel
   \<and> map_sum id side_highlighted (Reader_render Reader_scope_completed []
        \<lparr>activeTab = ''chat'', activeCitation = None, hoveredSentence = Some 1,
         showGuide = False\<rparr>) = Inr []
   \<and> run Reader_scope_completed
       [(MouseEnter, SideEntry sentence_1), (Click, BackButton)] (Reader_initial None False) =
     Inr (Unmounted ''/dashboard'')"
proof -
  obtain v where v: "Reader_render Reader_scope_completed []
        \<lparr>activeTab = ''translation'', activeCitation = None, hoveredSentence = Some 2,
         showGuide = False\<rparr> = Inr v"
    using Reader_render_total by blast
  have hv: "main_highlighted v = [2]" "side_highlighted v = [2]"
    using shown_member [OF in_doc(2)]
    by (simp_all add: main_highlighted_render [OF v] side_highlighted_render [OF v] ids)
  have c: "Reader_render Reader_scope_completed []
        \<lparr>activeTab = ''chat'', activeCitation = None, hoveredSentence = Some 1,
         showGuide = False\<rparr> = Inr w \<Longrightarrow> rv_side w = ChatPanel \<and> side_highlighted w = []" for w
    unfolding Reader_render_completed by (auto simp add: side_highlighted_def)
  obtain w where w: "Reader_render Reader_scope_completed []
        \<lparr>activeTab = ''chat'', activeCitation = None, hoveredSentence = Some 1,
         showGuide = False\<rparr> = Inr w"
    using Reader_render_total by blast
  from c [OF w] v hv w show ?thesis
    by (simp add: in_doc ids dispatch_def Reader_side_onMouseEnter_def
        Reader_tab_chat_onClick_def Reader_back_onClick_def completed_navigate
        completed_setters Reader_initial_def)
qed


end
